theory Spec2Isabelle
  imports Main "HOL-Library.Word" "HOL-Library.Multiset"
begin

section \<open>Strings as the handlers use them\<close>

text \<open>
  A JavaScript string is modelled as \<open>string\<close>, the UTF-8 bytes of its text. A value
  that may be \<open>undefined\<close> (an environment variable, a request header, a body
  field) is a \<open>string option\<close>; the empty string and \<open>undefined\<close> are both falsy,
  as in the source.
\<close>

definition startsWith :: "string \<Rightarrow> string \<Rightarrow> bool" where
  "startsWith s p = (take (length p) s = p)"

definition slice :: "string \<Rightarrow> nat \<Rightarrow> string" where
  "slice s n = drop n s"

text \<open>
  The white space that \<open>String.prototype.trim\<close> and the validator's \<open>trim()\<close>
  remove, each code point in UTF-8: U+0009 to U+000D, U+0020, U+00A0, U+1680, U+2000 to
  U+200A, U+2028, U+2029, U+202F, U+205F, U+3000 and U+FEFF.
\<close>

definition white_space :: "string list" where
  "white_space =
     [[CHR 0x09], [CHR 0x0A], [CHR 0x0B], [CHR 0x0C], [CHR 0x0D], [CHR 0x20],
      [CHR 0xC2, CHR 0xA0], [CHR 0xE1, CHR 0x9A, CHR 0x80],
      [CHR 0xE2, CHR 0x80, CHR 0x80], [CHR 0xE2, CHR 0x80, CHR 0x81],
      [CHR 0xE2, CHR 0x80, CHR 0x82], [CHR 0xE2, CHR 0x80, CHR 0x83],
      [CHR 0xE2, CHR 0x80, CHR 0x84], [CHR 0xE2, CHR 0x80, CHR 0x85],
      [CHR 0xE2, CHR 0x80, CHR 0x86], [CHR 0xE2, CHR 0x80, CHR 0x87],
      [CHR 0xE2, CHR 0x80, CHR 0x88], [CHR 0xE2, CHR 0x80, CHR 0x89],
      [CHR 0xE2, CHR 0x80, CHR 0x8A], [CHR 0xE2, CHR 0x80, CHR 0xA8],
      [CHR 0xE2, CHR 0x80, CHR 0xA9], [CHR 0xE2, CHR 0x80, CHR 0xAF],
      [CHR 0xE2, CHR 0x81, CHR 0x9F], [CHR 0xE3, CHR 0x80, CHR 0x80],
      [CHR 0xEF, CHR 0xBB, CHR 0xBF]]"

text \<open>Removing, from the front, every leading occurrence of one of the given sequences.\<close>

fun strip_prefixes :: "string list \<Rightarrow> string \<Rightarrow> string" where
  "strip_prefixes ps [] = []"
| "strip_prefixes ps (c # cs) =
     (case find (\<lambda>p. p \<noteq> [] \<and> take (length p) (c # cs) = p) ps of
        None \<Rightarrow> c # cs
      | Some p \<Rightarrow> strip_prefixes ps (drop (length p - 1) cs))"

text \<open>\<open>s.trim()\<close>: white space removed at the front, then at the back.\<close>

definition trim :: "string \<Rightarrow> string" where
  "trim s = rev (strip_prefixes (map rev white_space) (rev (strip_prefixes white_space s)))"

text \<open>
  The length the validator's \<open>isLength\<close> compares: characters, that is the bytes
  that do not continue a multi-byte sequence.
\<close>

definition is_continuation :: "char \<Rightarrow> bool" where
  "is_continuation c = (0x80 \<le> (of_char c :: nat) \<and> (of_char c :: nat) < 0xC0)"

definition char_count :: "string \<Rightarrow> nat" where
  "char_count s = length (filter (\<lambda>c. \<not> is_continuation c) s)"

definition falsy :: "string option \<Rightarrow> bool" where
  "falsy v = (case v of None \<Rightarrow> True | Some s \<Rightarrow> s = [])"

text \<open>\<open>v || d\<close> on a string that may be undefined.\<close>

definition or_default :: "string option \<Rightarrow> string \<Rightarrow> string" where
  "or_default v d = (case v of None \<Rightarrow> d | Some s \<Rightarrow> (if s = [] then d else s))"

text \<open>\<open>s.split('.')\<close>: the empty string splits into one empty segment.\<close>

fun split_dot :: "string \<Rightarrow> string list" where
  "split_dot [] = [[]]"
| "split_dot (c # cs) =
     (if c = CHR ''.'' then [] # split_dot cs
      else (case split_dot cs of [] \<Rightarrow> [[c]] | w # ws \<Rightarrow> (c # w) # ws))"

section \<open>Credential issuer (src/au.js, signToken) and the token library\<close>

text \<open>
  The payload the routes sign is \<open>{ id, email }\<close>; the library adds \<open>iat\<close> and
  \<open>exp\<close> (seconds). The decoded token carries all four; a token signed elsewhere
  with the same secret may lack \<open>exp\<close> and may carry a not-before instant \<open>nbf\<close>.
\<close>

record jwt_payload =
  tok_id :: string
  tok_email :: string
  tok_iat :: int
  tok_exp :: "int option"
  tok_nbf :: "int option"

datatype jwt_error = JsonWebTokenError string | NotBeforeError | TokenExpiredError

text \<open>
  The jsonwebtoken package is not part of the repository. Its compact HS256
  serialisation is modelled structurally; its primitives are parameters:
  \<^item> \<open>b64_payload\<close>: base64url of the JSON text of the claims;
  \<^item> \<open>parse_payload\<close>: the inverse direction, failing on text that is not a claims object;
  \<^item> \<open>header_alg\<close>: the \<open>alg\<close> entry of a decoded header segment;
  \<^item> \<open>hmac\<close>: base64url of the HMAC of the signing input under a key, for the
    algorithm named (\<open>HS256\<close>, \<open>HS384\<close> or \<open>HS512\<close>);
  \<^item> \<open>timespan\<close>: the library's \<open>timespan(time, iat)\<close>, the expiry instant for a
    duration string, undefined when the string is not a duration.
\<close>

record jwt_lib =
  b64_payload :: "jwt_payload \<Rightarrow> string"
  parse_payload :: "string \<Rightarrow> jwt_payload option"
  header_alg :: "string \<Rightarrow> string option"
  hmac :: "string \<Rightarrow> string \<Rightarrow> string \<Rightarrow> string"
  timespan :: "string \<Rightarrow> int \<Rightarrow> int option"

text \<open>base64url of \<open>{"alg":"HS256","typ":"JWT"}\<close>.\<close>

definition jwt_header :: string where
  "jwt_header = ''eyJhbGciOiJIUzI1NiIsInR5cCI6IkpXVCJ9''"

definition signing_input :: "string \<Rightarrow> string \<Rightarrow> string" where
  "signing_input h p = h @ ''.'' @ p"

text \<open>
  \<open>jwt.sign(payload, secret, { expiresIn })\<close> at clock \<open>now\<close> (seconds), with the
  default algorithm HS256. A missing or empty secret and an unparseable duration make
  it throw.
\<close>

definition jwt_sign ::
  "jwt_lib \<Rightarrow> string \<times> string \<Rightarrow> string option \<Rightarrow> string \<Rightarrow> int \<Rightarrow> jwt_error + string" where
  "jwt_sign L payload secret expiresIn now =
     (case secret of
        None \<Rightarrow> Inl (JsonWebTokenError ''secretOrPrivateKey must have a value'')
      | Some k \<Rightarrow>
          if k = [] then Inl (JsonWebTokenError ''secretOrPrivateKey must have a value'')
          else (case timespan L expiresIn now of
                  None \<Rightarrow> Inl (JsonWebTokenError ''expiresIn should be a timespan'')
                | Some e \<Rightarrow>
                    (let c = \<lparr>tok_id = fst payload, tok_email = snd payload,
                              tok_iat = now, tok_exp = Some e, tok_nbf = None\<rparr>;
                         inp = signing_input jwt_header (b64_payload L c)
                     in Inr (inp @ ''.'' @ hmac L ''HS256'' k inp))))"

text \<open>
  \<open>jwt.verify(token, secret)\<close> at clock \<open>now\<close>, with no options and a secret that is
  not a PEM key: three segments, decodable header and payload, a signature present, a
  secret present, one of the HMAC algorithms, signature equal to the one recomputed
  with the header's algorithm, the not-before instant, when the claims have one, not
  in the future, and the expiry, when they have one, strictly in the future.
\<close>

definition HS_ALGS :: "string list" where
  "HS_ALGS = [''HS256'', ''HS384'', ''HS512'']"

definition check_signed ::
  "jwt_lib \<Rightarrow> string \<Rightarrow> string \<Rightarrow> string \<Rightarrow> string \<Rightarrow> jwt_payload \<Rightarrow> string option \<Rightarrow> int
     \<Rightarrow> jwt_error + jwt_payload" where
  "check_signed L h p s alg c secret now =
     (if trim s = [] then Inl (JsonWebTokenError ''jwt signature is required'')
      else (case secret of
              None \<Rightarrow> Inl (JsonWebTokenError ''secret or public key must be provided'')
            | Some k \<Rightarrow>
                if k = [] then Inl (JsonWebTokenError ''secret or public key must be provided'')
                else if alg \<notin> set HS_ALGS then Inl (JsonWebTokenError ''invalid algorithm'')
                else if hmac L alg k (signing_input h p) \<noteq> s then
                  Inl (JsonWebTokenError ''invalid signature'')
                else if (case tok_nbf c of None \<Rightarrow> False | Some n \<Rightarrow> now < n) then
                  Inl NotBeforeError
                else (case tok_exp c of
                        None \<Rightarrow> Inr c
                      | Some e \<Rightarrow> if e \<le> now then Inl TokenExpiredError else Inr c)))"

definition jwt_verify ::
  "jwt_lib \<Rightarrow> string \<Rightarrow> string option \<Rightarrow> int \<Rightarrow> jwt_error + jwt_payload" where
  "jwt_verify L token secret now =
     (if token = [] then Inl (JsonWebTokenError ''jwt must be provided'')
      else (case split_dot token of
          [h, p, s] \<Rightarrow>
            (case header_alg L h of
               None \<Rightarrow> Inl (JsonWebTokenError ''invalid token'')
             | Some alg \<Rightarrow>
                 (case parse_payload L p of
                    None \<Rightarrow> Inl (JsonWebTokenError ''invalid token'')
                  | Some c \<Rightarrow> check_signed L h p s alg c secret now))
        | _ \<Rightarrow> Inl (JsonWebTokenError ''jwt malformed'')))"

text \<open>The process environment the auth module reads.\<close>

record env =
  JWT_SECRET :: "string option"
  JWT_EXPIRES :: "string option"

text \<open>\<open>signToken(payload)\<close>; a thrown error is \<open>Inl\<close>.\<close>

definition signToken :: "jwt_lib \<Rightarrow> env \<Rightarrow> int \<Rightarrow> string \<times> string \<Rightarrow> jwt_error + string" where
  "signToken L E now payload =
     jwt_sign L payload (JWT_SECRET E) (or_default (JWT_EXPIRES E) ''1d'') now"

section \<open>Auth gate (src/au.js, middlewares/auth.js)\<close>

text \<open>
  The middleware either answers itself (\<open>Reject status Message\<close>) or calls \<open>next()\<close>
  with the decoded identity attached to the request (\<open>Next decoded\<close>).
\<close>

datatype auth_result = Reject nat string | Next jwt_payload

text \<open>
  \<open>req.headers.authorization || ""\<close>, then the token: the header without a leading
  \<open>"Bearer "\<close>, or the header itself.
\<close>

definition extract_token :: "string option \<Rightarrow> string" where
  "extract_token authorization =
     (let header = or_default authorization []
      in if startsWith header ''Bearer '' then slice header 7 else header)"

definition auth :: "jwt_lib \<Rightarrow> env \<Rightarrow> int \<Rightarrow> string option \<Rightarrow> auth_result" where
  "auth L E now authorization =
     (let token = extract_token authorization
      in if token = [] then Reject 401 ''No token provided''
         else (case jwt_verify L token (JWT_SECRET E) now of
                 Inl err \<Rightarrow> Reject 401 ''Invalid/Expired token''
               | Inr decoded \<Rightarrow> Next decoded))"

section \<open>Account routes (src/au.js, routes/auth.js)\<close>

text \<open>
  The account model (\<open>../models/User\<close>) is not among the sources, so the routes take it
  as a parameter: how a stored account shows its id and email, what \<open>toObject()\<close>
  lists, how \<open>matchPassword\<close> compares, and what \<open>User.create\<close> builds from the
  signup fields (\<open>None\<close> when it throws). The collection is the list of stored accounts.
\<close>

datatype jv = S string | N int

type_synonym obj = "(string \<times> jv) list"

record 'u user_model =
  u_id :: "'u \<Rightarrow> string"
  u_email :: "'u \<Rightarrow> string"
  toObject :: "'u \<Rightarrow> obj"
  matchPassword :: "'u \<Rightarrow> string \<Rightarrow> bool"
  create :: "'u list \<Rightarrow> string \<Rightarrow> string \<Rightarrow> string \<Rightarrow> 'u option"

text \<open>\<open>User.findOne({ email })\<close> and \<open>User.findById(id)\<close>.\<close>

definition findOne :: "'u user_model \<Rightarrow> 'u list \<Rightarrow> string \<Rightarrow> 'u option" where
  "findOne M store em = find (\<lambda>u. u_email M u = em) store"

definition findById_account :: "'u user_model \<Rightarrow> 'u list \<Rightarrow> string \<Rightarrow> 'u option" where
  "findById_account M store i = find (\<lambda>u. u_id M u = i) store"

text \<open>
  \<open>const { password: _, ...userSafe } = user.toObject()\<close>, and \<open>.select("-password")\<close>:
  every entry except the one keyed \<open>password\<close>.
\<close>

definition userSafe :: "obj \<Rightarrow> obj" where
  "userSafe ob = filter (\<lambda>kv. fst kv \<noteq> ''password'') ob"

text \<open>The JSON bodies of the account routes; an absent key is \<open>None\<close>.\<close>

record auth_json =
  isError :: bool
  errors :: "string list option"
  Message :: "string option"
  token :: "string option"
  user :: "obj option"

type_synonym auth_response = "nat \<times> auth_json"

definition message_json :: "string \<Rightarrow> auth_json" where
  "message_json m = \<lparr>isError = True, errors = None, Message = Some m, token = None, user = None\<rparr>"

definition errors_json :: "string list \<Rightarrow> auth_json" where
  "errors_json es = \<lparr>isError = True, errors = Some es, Message = None, token = None, user = None\<rparr>"

definition token_json :: "string \<Rightarrow> string \<Rightarrow> obj \<Rightarrow> auth_json" where
  "token_json m t ob =
     \<lparr>isError = False, errors = None, Message = Some m, token = Some t, user = Some ob\<rparr>"

definition user_json :: "obj \<Rightarrow> auth_json" where
  "user_json ob = \<lparr>isError = False, errors = None, Message = None, token = None, user = Some ob\<rparr>"

text \<open>
  The request body of signup and login. The validators read a missing field as the
  empty string; \<open>isEmail\<close> is the validator package's predicate, which the empty string
  fails.
\<close>

record auth_body =
  b_name :: "string option"
  b_email :: "string option"
  b_password :: "string option"

definition field :: "string option \<Rightarrow> string" where
  "field v = or_default v []"

definition valid_email :: "(string \<Rightarrow> bool) \<Rightarrow> string option \<Rightarrow> bool" where
  "valid_email isEmail v = (field v \<noteq> [] \<and> isEmail (field v))"

definition signup_errors :: "(string \<Rightarrow> bool) \<Rightarrow> auth_body \<Rightarrow> string list" where
  "signup_errors isEmail b =
     (if trim (field (b_name b)) = [] then [''Name is required''] else [])
     @ (if valid_email isEmail (b_email b) then [] else [''Valid email required''])
     @ (if 6 \<le> char_count (field (b_password b)) then [] else [''Min 6 chars password''])"

definition login_errors :: "(string \<Rightarrow> bool) \<Rightarrow> auth_body \<Rightarrow> string list" where
  "login_errors isEmail b =
     (if valid_email isEmail (b_email b) then [] else [''Valid email required''])
     @ (if field (b_password b) = [] then [''Password required''] else [])"

text \<open>
  \<open>POST /signup\<close>. The \<open>trim()\<close> sanitizer replaces the name in the body. A throw
  of \<open>User.create\<close> or of \<open>signToken\<close> lands in the handler's \<open>catch\<close>; the latter
  after the account was stored.
\<close>

definition signup ::
  "jwt_lib \<Rightarrow> 'u user_model \<Rightarrow> (string \<Rightarrow> bool) \<Rightarrow> env \<Rightarrow> int \<Rightarrow> auth_body \<Rightarrow> 'u list
     \<Rightarrow> auth_response \<times> 'u list" where
  "signup L M isEmail E now b store =
     (let es = signup_errors isEmail b in
      if es \<noteq> [] then ((400, errors_json es), store)
      else
        (let name = trim (field (b_name b)); email = field (b_email b);
             password = field (b_password b)
         in case findOne M store email of
              Some exists \<Rightarrow> ((409, message_json ''Email already in use''), store)
            | None \<Rightarrow>
                (case create M store name email password of
                   None \<Rightarrow> ((500, message_json ''Internal server error''), store)
                 | Some u \<Rightarrow>
                     (case signToken L E now (u_id M u, u_email M u) of
                        Inl err \<Rightarrow> ((500, message_json ''Internal server error''), store @ [u])
                      | Inr t \<Rightarrow>
                          ((201, token_json ''User created'' t (userSafe (toObject M u))),
                           store @ [u])))))"

text \<open>\<open>POST /login\<close>.\<close>

definition login ::
  "jwt_lib \<Rightarrow> 'u user_model \<Rightarrow> (string \<Rightarrow> bool) \<Rightarrow> env \<Rightarrow> int \<Rightarrow> auth_body \<Rightarrow> 'u list
     \<Rightarrow> auth_response" where
  "login L M isEmail E now b store =
     (let es = login_errors isEmail b in
      if es \<noteq> [] then (400, errors_json es)
      else
        (let email = field (b_email b); password = field (b_password b)
         in case findOne M store email of
              None \<Rightarrow> (401, message_json ''Invalid credentials'')
            | Some u \<Rightarrow>
                if \<not> matchPassword M u password then (401, message_json ''Invalid credentials'')
                else (case signToken L E now (u_id M u, u_email M u) of
                        Inl err \<Rightarrow> (500, message_json ''Internal server error'')
                      | Inr t \<Rightarrow> (200, token_json ''Login success'' t (userSafe (toObject M u))))))"

text \<open>The handler of \<open>GET /me\<close>, run with the identity the gate attached.\<close>

definition me :: "'u user_model \<Rightarrow> jwt_payload \<Rightarrow> 'u list \<Rightarrow> auth_response \<times> 'u list" where
  "me M decoded store =
     (case findById_account M store (tok_id decoded) of
        None \<Rightarrow> ((404, message_json ''User not found''), store)
      | Some u \<Rightarrow> ((200, user_json (userSafe (toObject M u))), store))"

text \<open>
  \<open>router.get(path, auth, handler)\<close>: the handler runs only when the gate called
  \<open>next()\<close>; otherwise the gate's own response is the answer and the state is untouched.
\<close>

definition guarded ::
  "auth_result \<Rightarrow> (jwt_payload \<Rightarrow> 's \<Rightarrow> auth_response \<times> 's) \<Rightarrow> 's \<Rightarrow> auth_response \<times> 's" where
  "guarded g handler st =
     (case g of
        Reject code m \<Rightarrow> ((code, message_json m), st)
      | Next decoded \<Rightarrow> handler decoded st)"

definition route_me ::
  "jwt_lib \<Rightarrow> 'u user_model \<Rightarrow> env \<Rightarrow> int \<Rightarrow> string option \<Rightarrow> 'u list \<Rightarrow> auth_response \<times> 'u list" where
  "route_me L M E now authorization store = guarded (auth L E now authorization) (me M) store"

section \<open>Profile store (src/imageuploader/backend.js, userSchema)\<close>

type_synonym byte = "8 word"

text \<open>
  A stored document of the schema. \<open>doc_id\<close> is \<open>_id\<close> in its canonical text form,
  \<open>image'\<close> is the nested \<open>image\<close> path; it is \<open>None\<close> on a document read with the
  projection \<open>-image\<close>, and its \<open>data\<close> is \<open>None\<close> when no buffer is stored.
  Timestamps are milliseconds.
\<close>

record image_payload =
  data :: "byte list option"
  contentType :: "string option"

record profile =
  doc_id :: string
  name :: string
  mobile :: string
  address :: string
  image' :: "image_payload option"
  createdAt :: nat
  updatedAt :: nat

datatype mongo_error = ValidationError | DuplicateKey | CastError

text \<open>
  The object-id functions of the database driver are parameters: \<open>isValid\<close> is
  \<open>mongoose.Types.ObjectId.isValid\<close> on a string, \<open>castObjectId\<close> the canonical text
  of the object id a string converts to (\<open>None\<close> when the conversion throws).
\<close>

record mongo_lib =
  isValid :: "string \<Rightarrow> bool"
  castObjectId :: "string \<Rightarrow> string option"

text \<open>
  \<open>new User({ name, mobile, address, image })\<close>: the schema's \<open>trim\<close> setters run on
  the three text paths; the driver supplies the fresh id.
\<close>

definition new_User ::
  "string \<Rightarrow> string \<Rightarrow> string \<Rightarrow> string \<Rightarrow> image_payload \<Rightarrow> profile" where
  "new_User new_id n m a im =
     \<lparr>doc_id = new_id, name = trim n, mobile = trim m, address = trim a,
      image' = Some im, createdAt = 0, updatedAt = 0\<rparr>"

text \<open>
  \<open>doc.save()\<close> of a new document at clock \<open>now\<close>: the \<open>required\<close> validators reject
  an empty text path, the collection rejects a duplicate \<open>_id\<close>, and otherwise the
  document is inserted with both timestamps set.
\<close>

definition save :: "nat \<Rightarrow> profile \<Rightarrow> profile list \<Rightarrow> mongo_error + (profile \<times> profile list)" where
  "save now d store =
     (if name d = [] \<or> mobile d = [] \<or> address d = [] then Inl ValidationError
      else if doc_id d \<in> set (map doc_id store) then Inl DuplicateKey
      else (let saved = d\<lparr>createdAt := now, updatedAt := now\<rparr>
            in Inr (saved, store @ [saved])))"

text \<open>The projection \<open>-image\<close>.\<close>

definition exclude_image :: "profile \<Rightarrow> profile" where
  "exclude_image d = d\<lparr>image' := None\<rparr>"

text \<open>
  \<open>User.find({}, '-image').sort({ createdAt: -1 })\<close>. The database does not fix the
  order of documents with equal creation times; the model takes one.
\<close>

definition find_sorted :: "profile list \<Rightarrow> profile list" where
  "find_sorted store = rev (sort_key createdAt (map exclude_image store))"

text \<open>
  \<open>User.findById(id)\<close>: the id string is cast to an object id first, and a string that
  does not convert makes the query throw. Every string the conversion accepts is one
  \<open>isValid\<close> accepts.
\<close>

definition findById :: "mongo_lib \<Rightarrow> profile list \<Rightarrow> string \<Rightarrow> mongo_error + profile option" where
  "findById G store i =
     (if \<not> isValid G i then Inl CastError
      else (case castObjectId G i of
              None \<Rightarrow> Inl CastError
            | Some c \<Rightarrow> Inr (find (\<lambda>d. doc_id d = c) store)))"

section \<open>Responses of the profile routes\<close>

datatype payload =
    Created string string string string nat
  | Profiles "profile list"
  | Profile profile

datatype detail = Thrown mongo_error | Text string

record api_json =
  success :: bool
  message :: "string option"
  error :: "detail option"
  data_json :: "payload option"

datatype body = Json api_json | Bytes "byte list" | ErrorPage

record response =
  status :: nat
  content_type :: string
  body :: body

definition json :: "nat \<Rightarrow> api_json \<Rightarrow> response" where
  "json code j = \<lparr>status = code, content_type = ''application/json; charset=utf-8'', body = Json j\<rparr>"

definition failure :: "string \<Rightarrow> api_json" where
  "failure m = \<lparr>success = False, message = Some m, error = None, data_json = None\<rparr>"

definition server_error :: "detail \<Rightarrow> api_json" where
  "server_error e =
     \<lparr>success = False, message = Some ''Internal server error'', error = Some e, data_json = None\<rparr>"

section \<open>Upload middleware (src/imageuploader/backend.js, upload)\<close>

record upload_file =
  fieldname :: string
  mimetype :: string
  buffer :: "byte list"

text \<open>A multipart request: the three text fields and at most one file part.\<close>

record multipart =
  f_name :: "string option"
  f_mobile :: "string option"
  f_address :: "string option"
  file_part :: "upload_file option"

text \<open>
  An error object handed to \<open>next(err)\<close>. Neither \<open>new Error(...)\<close> nor the upload
  library's own errors carry a \<open>status\<close> property.
\<close>

record http_error =
  err_message :: string
  err_status :: "nat option"

definition Error :: "string \<Rightarrow> http_error" where
  "Error m = \<lparr>err_message = m, err_status = None\<rparr>"

definition MulterError :: "string \<Rightarrow> http_error" where
  "MulterError code =
     \<lparr>err_message = (if code = ''LIMIT_FILE_SIZE'' then ''File too large'' else ''Unexpected field''),
      err_status = None\<rparr>"

definition fileSize :: nat where
  "fileSize = 5 * 1024 * 1024"

definition fileFilter :: "upload_file \<Rightarrow> http_error + bool" where
  "fileFilter file =
     (if startsWith (mimetype file) ''image/'' then Inr True
      else Inl (Error ''Only image files are allowed!''))"

text \<open>
  \<open>upload.single('image')\<close> with memory storage: a file part under another field name
  is refused, then the filter decides, then the bytes are buffered up to the size limit.
  The result is \<open>req.file\<close>, or the error passed to \<open>next\<close>.
\<close>

definition upload_single :: "string \<Rightarrow> multipart \<Rightarrow> http_error + upload_file option" where
  "upload_single fld r =
     (case file_part r of
        None \<Rightarrow> Inr None
      | Some f \<Rightarrow>
          if fieldname f \<noteq> fld then Inl (MulterError ''LIMIT_UNEXPECTED_FILE'')
          else (case fileFilter f of
                  Inl e \<Rightarrow> Inl e
                | Inr accept \<Rightarrow>
                    if \<not> accept then Inr None
                    else if fileSize < length (buffer f) then Inl (MulterError ''LIMIT_FILE_SIZE'')
                    else Inr (Some f)))"

text \<open>
  The router installs no error-handling middleware, so an error passed to \<open>next\<close>
  reaches the framework's final handler: the error's own status when it has one in
  the 4xx/5xx range, otherwise 500, with an HTML page whose text depends on the
  deployment.
\<close>

definition final_handler :: "http_error \<Rightarrow> response" where
  "final_handler e =
     \<lparr>status = (case err_status e of
                  None \<Rightarrow> 500
                | Some c \<Rightarrow> if 400 \<le> c \<and> c < 600 then c else 500),
      content_type = ''text/html; charset=utf-8'',
      body = ErrorPage\<rparr>"

section \<open>Profile routes (src/imageuploader/backend.js)\<close>

text \<open>The handler of \<open>POST /users\<close>, with \<open>req.file\<close> as the middleware left it.\<close>

definition post_users ::
  "string \<Rightarrow> nat \<Rightarrow> multipart \<Rightarrow> upload_file option \<Rightarrow> profile list \<Rightarrow> response \<times> profile list" where
  "post_users new_id now r file store =
     (if falsy (f_name r) \<or> falsy (f_mobile r) \<or> falsy (f_address r) then
        (json 400 (failure ''Name, mobile, and address are required''), store)
      else (case file of
              None \<Rightarrow> (json 400 (failure ''Image is required''), store)
            | Some f \<Rightarrow>
                (let newUser = new_User new_id (field (f_name r)) (field (f_mobile r))
                                 (field (f_address r))
                                 \<lparr>data = Some (buffer f), contentType = Some (mimetype f)\<rparr>
                 in case save now newUser store of
                      Inl err \<Rightarrow> (json 500 (server_error (Thrown err)), store)
                    | Inr (savedUser, store') \<Rightarrow>
                        (json 201
                           \<lparr>success = True, message = Some ''User created successfully'',
                            error = None,
                            data_json = Some (Created (doc_id savedUser) (name savedUser)
                                               (mobile savedUser) (address savedUser)
                                               (createdAt savedUser))\<rparr>,
                         store'))))"

text \<open>\<open>router.post('/users', upload.single('image'), handler)\<close>.\<close>

definition route_post_users ::
  "string \<Rightarrow> nat \<Rightarrow> multipart \<Rightarrow> profile list \<Rightarrow> response \<times> profile list" where
  "route_post_users new_id now r store =
     (case upload_single ''image'' r of
        Inl e \<Rightarrow> (final_handler e, store)
      | Inr file \<Rightarrow> post_users new_id now r file store)"

text \<open>\<open>GET /users\<close>.\<close>

definition get_users :: "profile list \<Rightarrow> response" where
  "get_users store =
     json 200 \<lparr>success = True, message = None, error = None,
               data_json = Some (Profiles (find_sorted store))\<rparr>"

text \<open>\<open>GET /users/:id\<close>.\<close>

definition get_user :: "mongo_lib \<Rightarrow> string \<Rightarrow> profile list \<Rightarrow> response" where
  "get_user G i store =
     (case findById G store i of
        Inl err \<Rightarrow> json 500 (server_error (Thrown err))
      | Inr None \<Rightarrow> json 404 (failure ''User not found'')
      | Inr (Some u) \<Rightarrow>
          json 200 \<lparr>success = True, message = None, error = None,
                    data_json = Some (Profile (exclude_image u))\<rparr>)"

text \<open>
  \<open>res.set('Content-Type', v)\<close>: an undefined value is written as its text, and a
  charset is appended to a textual type that names none (\<open>has_charset\<close> is the
  framework's test for a charset parameter).
\<close>

definition set_content_type :: "(string \<Rightarrow> bool) \<Rightarrow> string option \<Rightarrow> string" where
  "set_content_type has_charset v =
     (let s = (case v of None \<Rightarrow> ''undefined'' | Some t \<Rightarrow> t)
      in if \<not> has_charset s \<and> (startsWith s ''text/'' \<or> startsWith s ''application/javascript''
                                 \<or> startsWith s ''application/json'')
         then s @ ''; charset=utf-8'' else s)"

text \<open>\<open>user.image.data\<close>, undefined when the path or its buffer is absent.\<close>

definition image_data :: "profile \<Rightarrow> byte list option" where
  "image_data u = (case image' u of None \<Rightarrow> None | Some im \<Rightarrow> data im)"

definition image_contentType :: "profile \<Rightarrow> string option" where
  "image_contentType u = (case image' u of None \<Rightarrow> None | Some im \<Rightarrow> contentType im)"

text \<open>\<open>GET /users/:id/image\<close>; \<open>NODE_ENV\<close> decides the detail of a 500.\<close>

definition get_user_image ::
  "mongo_lib \<Rightarrow> (string \<Rightarrow> bool) \<Rightarrow> string option \<Rightarrow> string \<Rightarrow> profile list \<Rightarrow> response" where
  "get_user_image G has_charset NODE_ENV i store =
     (if \<not> isValid G i then json 400 (failure ''Invalid user ID format'')
      else (case findById G store i of
              Inl err \<Rightarrow>
                json 500 (server_error (if NODE_ENV = Some ''development'' then Thrown err
                                         else Text ''Something went wrong''))
            | Inr None \<Rightarrow> json 404 (failure ''Image not found'')
            | Inr (Some u) \<Rightarrow>
                (case image_data u of
                   None \<Rightarrow> json 404 (failure ''Image not found'')
                 | Some bytes \<Rightarrow>
                     \<lparr>status = 200,
                      content_type = set_content_type has_charset (image_contentType u),
                      body = Bytes bytes\<rparr>)))"

text \<open>
  The one error-handling middleware of the repository (src/updatedIindex.js), the
  handler an application mounting the router would reach instead of the final one.
\<close>

definition app_error_handler :: "http_error \<Rightarrow> response" where
  "app_error_handler e =
     json 500 \<lparr>success = False, message = Some ''Something went wrong!'',
               error = Some (Text (err_message e)), data_json = None\<rparr>"

section \<open>Concrete instances\<close>

text \<open>
  Small instances of the library parameters and of the stores, on which the handlers
  are evaluated below. The token codec is a one-entry table, the signature a toy
  function of algorithm, key and input; object ids are 24 lower-case hexadecimal
  digits.
\<close>

definition example_payload :: jwt_payload where
  "example_payload = \<lparr>tok_id = ''65f0c0ffee65f0c0ffee0001'', tok_email = ''ann@example.com'',
                       tok_iat = 1000, tok_exp = Some 87400, tok_nbf = None\<rparr>"

definition example_jwt :: jwt_lib where
  "example_jwt =
     \<lparr>b64_payload = (\<lambda>c. filter (\<lambda>x. x \<noteq> CHR ''.'') (tok_id c @ tok_email c)),
      parse_payload = (\<lambda>s. if s = ''65f0c0ffee65f0c0ffee0001ann@examplecom''
                             then Some example_payload else None),
      header_alg = (\<lambda>h. if h = jwt_header then Some ''HS256'' else None),
      hmac = (\<lambda>alg k m. filter (\<lambda>x. x \<noteq> CHR ''.'') (rev k @ take 8 (rev m) @ drop 2 alg)),
      timespan = (\<lambda>s t. if s = ''1d'' then Some (t + 86400) else None)\<rparr>"

definition example_env :: env where
  "example_env = \<lparr>JWT_SECRET = Some ''s3cret'', JWT_EXPIRES = None\<rparr>"

definition example_token :: string where
  "example_token = jwt_header @ ''.65f0c0ffee65f0c0ffee0001ann@examplecom.terc3smocelpma256''"

definition str_at :: "obj \<Rightarrow> string \<Rightarrow> string" where
  "str_at ob k = (case map_of ob k of Some (S v) \<Rightarrow> v | _ \<Rightarrow> [])"

definition example_model :: "obj user_model" where
  "example_model =
     \<lparr>u_id = (\<lambda>u. str_at u ''_id''),
      u_email = (\<lambda>u. str_at u ''email''),
      toObject = (\<lambda>u. u),
      matchPassword = (\<lambda>u pw. str_at u ''password'' = rev pw),
      create = (\<lambda>store n e pw.
                  Some [(''_id'', S ''65f0c0ffee65f0c0ffee0001''), (''name'', S n),
                        (''email'', S e), (''password'', S (rev pw)), (''__v'', N 0)])\<rparr>"

definition example_isEmail :: "string \<Rightarrow> bool" where
  "example_isEmail s = (CHR ''@'' \<in> set s)"

definition example_account :: obj where
  "example_account =
     [(''_id'', S ''65f0c0ffee65f0c0ffee0001''), (''name'', S ''Ann''),
      (''email'', S ''ann@example.com''), (''password'', S ''22retnuh''), (''__v'', N 0)]"

definition example_signup :: auth_body where
  "example_signup = \<lparr>b_name = Some '' Ann '', b_email = Some ''ann@example.com'',
                      b_password = Some ''hunter22''\<rparr>"

definition is_hex :: "char \<Rightarrow> bool" where
  "is_hex c = (c \<in> set ''0123456789abcdef'')"

definition example_mongo :: mongo_lib where
  "example_mongo =
     \<lparr>isValid = (\<lambda>s. length s = 24 \<and> list_all is_hex s),
      castObjectId = (\<lambda>s. if length s = 24 \<and> list_all is_hex s then Some s else None)\<rparr>"

definition big_png :: upload_file where
  "big_png = \<lparr>fieldname = ''image'', mimetype = ''image/png'',
              buffer = replicate (6 * 1024 * 1024) 0\<rparr>"

definition small_png :: upload_file where
  "small_png = \<lparr>fieldname = ''image'', mimetype = ''image/png'', buffer = [137, 80, 78, 71]\<rparr>"

definition small_txt :: upload_file where
  "small_txt = \<lparr>fieldname = ''image'', mimetype = ''text/plain'', buffer = [104, 105]\<rparr>"

definition ann :: "upload_file option \<Rightarrow> multipart" where
  "ann f = \<lparr>f_name = Some ''Ann'', f_mobile = Some ''1234567890'',
            f_address = Some ''1 Main St'', file_part = f\<rparr>"

definition example_profile :: "string \<Rightarrow> string \<Rightarrow> byte list option \<Rightarrow> nat \<Rightarrow> profile" where
  "example_profile i n bytes t =
     \<lparr>doc_id = i, name = n, mobile = ''1234567890'', address = ''1 Main St'',
      image' = Some \<lparr>data = bytes, contentType = map_option (\<lambda>b. ''image/png'') bytes\<rparr>,
      createdAt = t, updatedAt = t\<rparr>"

definition example_store :: "profile list" where
  "example_store =
     [example_profile ''65f0c0ffee65f0c0ffee0001'' ''Ann'' (Some [137, 80, 78, 71]) 1000,
      example_profile ''65f0c0ffee65f0c0ffee0002'' ''Bob'' None 3000,
      example_profile ''65f0c0ffee65f0c0ffee0003'' ''Cy'' (Some [71, 73, 70]) 2000]"

section \<open>Token round trip\<close>

lemma split_dot_plain: "CHR ''.'' \<notin> set a \<Longrightarrow> split_dot a = [a]"
  by (induction a) auto

lemma split_dot_segment:
  "CHR ''.'' \<notin> set a \<Longrightarrow> split_dot (a @ CHR ''.'' # r) = a # split_dot r"
  by (induction a) (auto split: list.splits)

lemma split_dot_three:
  assumes "CHR ''.'' \<notin> set h" "CHR ''.'' \<notin> set p" "CHR ''.'' \<notin> set s"
  shows "split_dot (signing_input h p @ ''.'' @ s) = [h, p, s]"
  using assms by (simp add: signing_input_def split_dot_segment split_dot_plain)

lemma jwt_header_no_dot: "CHR ''.'' \<notin> set jwt_header"
  by (simp add: jwt_header_def)

lemma issued_not_bearer: "\<not> startsWith (signing_input jwt_header p @ r) ''Bearer ''"
  by (simp add: startsWith_def signing_input_def jwt_header_def)

lemma extract_token_bearer: "extract_token (Some (''Bearer '' @ t)) = t"
  by (simp add: extract_token_def or_default_def startsWith_def slice_def)

lemma extract_token_raw: "\<not> startsWith h ''Bearer '' \<Longrightarrow> extract_token (Some h) = h"
  by (auto simp add: extract_token_def or_default_def startsWith_def slice_def)

lemma extract_token_absent: "extract_token None = []"
  by (simp add: extract_token_def or_default_def startsWith_def slice_def)

lemma verify_issued:
  assumes "k \<noteq> []"
    and "parse_payload L (b64_payload L c) = Some c"
    and "CHR ''.'' \<notin> set (b64_payload L c)"
    and "header_alg L jwt_header = Some ''HS256''"
    and "CHR ''.'' \<notin> set (hmac L ''HS256'' k (signing_input jwt_header (b64_payload L c)))"
    and "trim (hmac L ''HS256'' k (signing_input jwt_header (b64_payload L c))) \<noteq> []"
    and "tok_exp c = Some e" "now < e" "tok_nbf c = None"
  shows "jwt_verify L (signing_input jwt_header (b64_payload L c) @ ''.''
            @ hmac L ''HS256'' k (signing_input jwt_header (b64_payload L c))) (Some k) now = Inr c"
proof -
  let ?p = "b64_payload L c"
  let ?s = "hmac L ''HS256'' k (signing_input jwt_header ?p)"
  have sp: "split_dot (signing_input jwt_header ?p @ ''.'' @ ?s) = [jwt_header, ?p, ?s]"
    using jwt_header_no_dot assms(3,5) by (rule split_dot_three)
  have ne: "signing_input jwt_header ?p @ ''.'' @ ?s \<noteq> []"
    by (simp add: signing_input_def)
  have "check_signed L jwt_header ?p ?s ''HS256'' c (Some k) now = Inr c"
    using assms(1,6,7,8,9) by (simp add: check_signed_def HS_ALGS_def)
  then show ?thesis
    unfolding jwt_verify_def using sp ne assms(2,4) by simp
qed

text \<open>
  C1. A token that \<open>signToken\<close> issues for a subject id and email, presented to the
  auth gate under the same secret before its expiry, with or without the
  \<open>"Bearer "\<close> prefix, is accepted, and the identity the gate attaches carries exactly
  that id and email. The library parameters are constrained only at the issued
  claims: the payload segment parses back to them, and neither the payload segment
  nor the signature contains a dot or is blank.
\<close>

theorem issue_verify_roundtrip:
  fixes L E t0 i em e k now
  defines "c \<equiv> \<lparr>tok_id = i, tok_email = em, tok_iat = t0, tok_exp = Some e,
                 tok_nbf = None\<rparr>"
  assumes secret: "JWT_SECRET E = Some k" "k \<noteq> []"
    and span: "timespan L (or_default (JWT_EXPIRES E) ''1d'') t0 = Some e"
    and codec: "parse_payload L (b64_payload L c) = Some c"
               "CHR ''.'' \<notin> set (b64_payload L c)"
    and hdr: "header_alg L jwt_header = Some ''HS256''"
    and mac: "CHR ''.'' \<notin> set (hmac L ''HS256'' k (signing_input jwt_header (b64_payload L c)))"
             "trim (hmac L ''HS256'' k (signing_input jwt_header (b64_payload L c))) \<noteq> []"
    and live: "now < e"
  shows "\<exists>t d. signToken L E t0 (i, em) = Inr t
           \<and> auth L E now (Some (''Bearer '' @ t)) = Next d
           \<and> auth L E now (Some t) = Next d
           \<and> tok_id d = i \<and> tok_email d = em"
proof -
  let ?inp = "signing_input jwt_header (b64_payload L c)"
  let ?t = "?inp @ ''.'' @ hmac L ''HS256'' k ?inp"
  have issued: "signToken L E t0 (i, em) = Inr ?t"
    using secret span by (simp add: signToken_def jwt_sign_def c_def Let_def)
  have ne: "?t \<noteq> []" by (simp add: signing_input_def)
  have ver: "jwt_verify L ?t (JWT_SECRET E) now = Inr c"
    using verify_issued[OF secret(2) codec hdr mac _ live] secret(1) by (simp add: c_def)
  have a1: "auth L E now (Some (''Bearer '' @ ?t)) = Next c"
    unfolding auth_def Let_def extract_token_bearer using ne ver by simp
  have "extract_token (Some ?t) = ?t"
    using issued_not_bearer by (rule extract_token_raw)
  then have a2: "auth L E now (Some ?t) = Next c"
    unfolding auth_def Let_def using ne ver by simp
  have "tok_id c = i \<and> tok_email c = em" by (simp add: c_def)
  with issued a1 a2 show ?thesis by blast
qed

lemma example_issue:
  "signToken example_jwt example_env 1000 (''65f0c0ffee65f0c0ffee0001'', ''ann@example.com'')
     = Inr example_token"
  by (simp add: signToken_def jwt_sign_def example_jwt_def example_env_def or_default_def
        signing_input_def example_token_def Let_def)

theorem issue_verify_roundtrip_witness:
  "signToken example_jwt example_env 1000 (''65f0c0ffee65f0c0ffee0001'', ''ann@example.com'')
     = Inr example_token
   \<and> (\<exists>d. auth example_jwt example_env 5000 (Some (''Bearer '' @ example_token)) = Next d
          \<and> auth example_jwt example_env 5000 (Some example_token) = Next d
          \<and> tok_id d = ''65f0c0ffee65f0c0ffee0001'' \<and> tok_email d = ''ann@example.com'')"
proof -
  let ?c = "\<lparr>tok_id = ''65f0c0ffee65f0c0ffee0001'', tok_email = ''ann@example.com'',
             tok_iat = 1000, tok_exp = Some 87400, tok_nbf = None\<rparr>"
  have h1: "JWT_SECRET example_env = Some ''s3cret''" and h2: "''s3cret'' \<noteq> []"
    by (simp_all add: example_env_def)
  have h3: "timespan example_jwt (or_default (JWT_EXPIRES example_env) ''1d'') 1000 = Some 87400"
    by (simp add: example_jwt_def example_env_def or_default_def)
  have b: "b64_payload example_jwt ?c = ''65f0c0ffee65f0c0ffee0001ann@examplecom''"
    by (simp add: example_jwt_def)
  have h4: "parse_payload example_jwt (b64_payload example_jwt ?c) = Some ?c"
    unfolding b by (simp add: example_jwt_def example_payload_def)
  have h5: "CHR ''.'' \<notin> set (b64_payload example_jwt ?c)"
    unfolding b by simp
  have h6: "header_alg example_jwt jwt_header = Some ''HS256''"
    by (simp add: example_jwt_def)
  have m: "hmac example_jwt ''HS256'' ''s3cret''
             (signing_input jwt_header (b64_payload example_jwt ?c)) = ''terc3smocelpma256''"
    unfolding b by (simp add: example_jwt_def signing_input_def jwt_header_def)
  have h7: "CHR ''.'' \<notin> set (hmac example_jwt ''HS256'' ''s3cret''
             (signing_input jwt_header (b64_payload example_jwt ?c)))"
    unfolding m by simp
  have h8: "trim (hmac example_jwt ''HS256'' ''s3cret''
             (signing_input jwt_header (b64_payload example_jwt ?c))) \<noteq> []"
    unfolding m by (simp add: trim_def white_space_def)
  have h9: "(5000::int) < 87400" by simp
  from issue_verify_roundtrip[OF h1 h2 h3 h4 h5 h6 h7 h8 h9]
  obtain t d where t: "signToken example_jwt example_env 1000
                         (''65f0c0ffee65f0c0ffee0001'', ''ann@example.com'') = Inr t"
    and d: "auth example_jwt example_env 5000 (Some (''Bearer '' @ t)) = Next d"
      "auth example_jwt example_env 5000 (Some t) = Next d"
      "tok_id d = ''65f0c0ffee65f0c0ffee0001''" "tok_email d = ''ann@example.com''"
    by blast
  from t example_issue have "t = example_token" by simp
  with d example_issue show ?thesis by blast
qed

section \<open>The auth gate on unauthenticated requests\<close>

lemma expired_fails:
  assumes "split_dot t = [h, p, s]" "parse_payload L p = Some c" "tok_exp c = Some e" "e \<le> now"
  shows "\<exists>err. jwt_verify L t secret now = Inl err"
  using assms
  by (auto simp: jwt_verify_def check_signed_def split: option.splits)

lemma malformed_fails:
  "length (split_dot t) \<noteq> 3 \<Longrightarrow> \<exists>err. jwt_verify L t secret now = Inl err"
  by (auto simp: jwt_verify_def split: list.splits)

lemma bad_signature_fails:
  assumes "split_dot t = [h, p, s]" "header_alg L h = Some alg"
    and "secret = Some k" "hmac L alg k (signing_input h p) \<noteq> s"
  shows "\<exists>err. jwt_verify L t secret now = Inl err"
  using assms by (auto simp: jwt_verify_def check_signed_def split: option.splits)

lemma not_before_fails:
  assumes "split_dot t = [h, p, s]" "parse_payload L p = Some c"
    and "tok_nbf c = Some n" "now < n"
  shows "\<exists>err. jwt_verify L t secret now = Inl err"
  using assms by (auto simp: jwt_verify_def check_signed_def split: option.splits)

text \<open>
  C2. The gate takes the token from the authorization header: what follows a leading
  \<open>"Bearer "\<close>, otherwise the header itself, and the empty string when the header is
  absent. An empty token is answered 401 "No token provided"; a token whose
  verification fails is answered 401 "Invalid/Expired token", and a token whose
  claims decode but whose expiry has passed does fail verification. In both failure
  cases the guarded route answers with the gate's response whatever the protected
  handler is, and leaves the state as it was: the handler does not run.
\<close>

theorem auth_gate_unauthenticated:
  fixes handler :: "jwt_payload \<Rightarrow> 's \<Rightarrow> auth_response \<times> 's"
  shows "extract_token (Some (''Bearer '' @ t)) = t
       \<and> (\<not> startsWith h ''Bearer '' \<longrightarrow> extract_token (Some h) = h)
       \<and> extract_token None = []
       \<and> (extract_token a = [] \<longrightarrow>
            auth L E now a = Reject 401 ''No token provided''
          \<and> guarded (auth L E now a) handler st
              = ((401, message_json ''No token provided''), st))
       \<and> (extract_token a \<noteq> []
            \<and> jwt_verify L (extract_token a) (JWT_SECRET E) now = Inl err \<longrightarrow>
            auth L E now a = Reject 401 ''Invalid/Expired token''
          \<and> guarded (auth L E now a) handler st
              = ((401, message_json ''Invalid/Expired token''), st))
       \<and> (split_dot tk = [hs, p, s] \<and> parse_payload L p = Some c
            \<and> tok_exp c = Some e \<and> e \<le> now \<longrightarrow>
            (\<exists>err. jwt_verify L tk (JWT_SECRET E) now = Inl err))"
proof -
  have none: "extract_token a = [] \<longrightarrow>
            auth L E now a = Reject 401 ''No token provided''
          \<and> guarded (auth L E now a) handler st
              = ((401, message_json ''No token provided''), st)"
    by (simp add: auth_def guarded_def)
  have bad: "extract_token a \<noteq> []
            \<and> jwt_verify L (extract_token a) (JWT_SECRET E) now = Inl err \<longrightarrow>
            auth L E now a = Reject 401 ''Invalid/Expired token''
          \<and> guarded (auth L E now a) handler st
              = ((401, message_json ''Invalid/Expired token''), st)"
    by (simp add: auth_def guarded_def)
  have raw: "\<not> startsWith h ''Bearer '' \<longrightarrow> extract_token (Some h) = h"
    using extract_token_raw by blast
  have old: "split_dot tk = [hs, p, s] \<and> parse_payload L p = Some c
            \<and> tok_exp c = Some e \<and> e \<le> now \<longrightarrow>
            (\<exists>err. jwt_verify L tk (JWT_SECRET E) now = Inl err)"
    using expired_fails by blast
  from none bad raw old extract_token_bearer extract_token_absent show ?thesis by blast
qed

lemma example_token_segments:
  "split_dot example_token
     = [jwt_header, ''65f0c0ffee65f0c0ffee0001ann@examplecom'', ''terc3smocelpma256'']"
  by (simp add: example_token_def jwt_header_def)

theorem auth_gate_unauthenticated_witness:
  "guarded (auth example_jwt example_env 5000 None) (me example_model) [example_account]
     = ((401, message_json ''No token provided''), [example_account])
   \<and> guarded (auth example_jwt example_env 5000 (Some ''Bearer abc'')) (me example_model)
        [example_account]
     = ((401, message_json ''Invalid/Expired token''), [example_account])
   \<and> extract_token (Some ''abc'') = ''abc''
   \<and> (\<exists>err. jwt_verify example_jwt example_token (JWT_SECRET example_env) 87400 = Inl err)"
proof -
  note T = auth_gate_unauthenticated[where L = example_jwt and E = example_env
      and handler = "me example_model" and st = "[example_account]"]
  have e1: "extract_token None = []"
    by (simp add: extract_token_def or_default_def startsWith_def)
  have e2: "extract_token (Some ''Bearer abc'') = ''abc''"
    by (simp add: extract_token_def or_default_def startsWith_def slice_def)
  have v2: "jwt_verify example_jwt ''abc'' (JWT_SECRET example_env) 5000
              = Inl (JsonWebTokenError ''jwt malformed'')"
    by (simp add: jwt_verify_def)
  have r: "\<not> startsWith ''abc'' ''Bearer ''"
    by (simp add: startsWith_def)
  have x: "parse_payload example_jwt ''65f0c0ffee65f0c0ffee0001ann@examplecom'' = Some example_payload"
    "tok_exp example_payload = Some 87400" "(87400::int) \<le> 87400"
    by (simp_all add: example_jwt_def example_payload_def)
  have c1: "guarded (auth example_jwt example_env 5000 None) (me example_model) [example_account]
     = ((401, message_json ''No token provided''), [example_account])"
    using T[where a = None and now = 5000] e1 by blast
  have pre: "extract_token (Some ''Bearer abc'') \<noteq> []
      \<and> jwt_verify example_jwt (extract_token (Some ''Bearer abc'')) (JWT_SECRET example_env) 5000
          = Inl (JsonWebTokenError ''jwt malformed'')"
    by (simp add: e2 v2)
  have c2: "guarded (auth example_jwt example_env 5000 (Some ''Bearer abc'')) (me example_model)
        [example_account]
     = ((401, message_json ''Invalid/Expired token''), [example_account])"
    using T[where a = "Some ''Bearer abc''" and now = 5000
              and err = "JsonWebTokenError ''jwt malformed''"] pre by blast
  have c3: "extract_token (Some ''abc'') = ''abc''"
    using T[where h = "''abc''"] r by blast
  have c4: "\<exists>err. jwt_verify example_jwt example_token (JWT_SECRET example_env) 87400 = Inl err"
    using T[where tk = example_token and now = 87400 and c = example_payload and e = 87400
              and hs = jwt_header and p = "''65f0c0ffee65f0c0ffee0001ann@examplecom''"
              and s = "''terc3smocelpma256''"] example_token_segments x by blast
  from c1 c2 c3 c4 show ?thesis by blast
qed

section \<open>Rejected uploads\<close>

lemma status_json: "status (json code j) = code"
  by (simp add: json_def)

lemma final_handler_plain: "err_status e = None \<Longrightarrow> status (final_handler e) = 500"
  by (simp add: final_handler_def)

lemma upload_single_oversize:
  assumes "file_part r = Some f" "fileSize < length (buffer f)"
  shows "\<exists>e. upload_single ''image'' r = Inl e \<and> err_status e = None"
  using assms
  by (auto simp: upload_single_def fileFilter_def MulterError_def Error_def)

lemma upload_single_nonimage:
  assumes "file_part r = Some f" "\<not> startsWith (mimetype f) ''image/''"
  shows "\<exists>e. upload_single ''image'' r = Inl e \<and> err_status e = None"
  using assms
  by (auto simp: upload_single_def fileFilter_def MulterError_def Error_def)

lemma upload_error_no_status:
  "upload_single fld r = Inl e \<Longrightarrow> err_status e = None"
  by (auto simp: upload_single_def fileFilter_def MulterError_def Error_def
           split: option.splits if_splits)

lemma upload_single_None:
  "file_part r = None \<Longrightarrow> upload_single fld r = Inr None"
  by (simp add: upload_single_def)

lemma upload_single_accepts:
  "upload_single fld r = Inr (Some f) \<Longrightarrow>
     file_part r = Some f \<and> startsWith (mimetype f) ''image/'' \<and> length (buffer f) \<le> fileSize"
  by (auto simp: upload_single_def fileFilter_def split: option.splits if_splits sum.splits)

lemma route_upload_error:
  "upload_single ''image'' r = Inl e \<Longrightarrow>
     route_post_users new_id now r store = (final_handler e, store)"
  by (simp add: route_post_users_def)

lemma big_png_fields:
  "fieldname big_png = ''image''" "mimetype big_png = ''image/png''"
  "length (buffer big_png) = 6 * 1024 * 1024"
  by (simp_all only: big_png_def upload_file.simps length_replicate)

lemma big_png_oversize: "fileSize < length (buffer big_png)"
  by (simp add: big_png_fields fileSize_def)

lemma big_png_rejected:
  "upload_single ''image'' (ann (Some big_png)) = Inl (MulterError ''LIMIT_FILE_SIZE'')"
  unfolding upload_single_def ann_def fileFilter_def
  by (simp add: big_png_fields startsWith_def fileSize_def)

lemma small_txt_rejected:
  "upload_single ''image'' (ann (Some small_txt)) = Inl (Error ''Only image files are allowed!'')"
  unfolding upload_single_def ann_def fileFilter_def
  by (simp add: small_txt_def startsWith_def)

text \<open>
  C3, as stated, fails. A 6 MiB PNG and a two-byte \<open>text/plain\<close> file, each sent with
  the three text fields, are refused by the upload middleware, but the response is
  500 in both cases, neither 413 nor 415.
\<close>

theorem upload_rejection_not_413_415:
  "status (fst (route_post_users ''65f0c0ffee65f0c0ffee0009'' 5000 (ann (Some big_png)) [])) = 500
   \<and> status (fst (route_post_users ''65f0c0ffee65f0c0ffee0009'' 5000 (ann (Some big_png)) [])) \<noteq> 413
   \<and> status (fst (route_post_users ''65f0c0ffee65f0c0ffee0009'' 5000 (ann (Some small_txt)) [])) = 500
   \<and> status (fst (route_post_users ''65f0c0ffee65f0c0ffee0009'' 5000 (ann (Some small_txt)) [])) \<noteq> 415"
  unfolding route_post_users_def big_png_rejected small_txt_rejected
  by (simp add: final_handler_def MulterError_def Error_def)

text \<open>
  C3, amended. A file part larger than 5 MiB, or one whose declared MIME type does
  not begin with \<open>image/\<close>, makes the upload middleware pass an error to the
  framework instead of calling the route handler. The error carries no status, so the
  framework's final handler answers 500; so does the repository's one error
  middleware. The store is left as it was.
\<close>

theorem upload_rejection_status:
  assumes "file_part r = Some f"
    and "fileSize < length (buffer f) \<or> \<not> startsWith (mimetype f) ''image/''"
  shows "\<exists>e. upload_single ''image'' r = Inl e
           \<and> route_post_users new_id now r store = (final_handler e, store)
           \<and> status (final_handler e) = 500
           \<and> status (app_error_handler e) = 500"
proof -
  from assms obtain e where e: "upload_single ''image'' r = Inl e" "err_status e = None"
    using upload_single_oversize upload_single_nonimage by blast
  then show ?thesis
    using route_upload_error final_handler_plain
    by (auto simp: app_error_handler_def status_json)
qed

theorem upload_rejection_status_witness:
  "(\<exists>e. upload_single ''image'' (ann (Some big_png)) = Inl e
        \<and> route_post_users ''65f0c0ffee65f0c0ffee0009'' 5000 (ann (Some big_png)) example_store
            = (final_handler e, example_store)
        \<and> status (final_handler e) = 500 \<and> status (app_error_handler e) = 500)
   \<and> (\<exists>e. upload_single ''image'' (ann (Some small_txt)) = Inl e
        \<and> route_post_users ''65f0c0ffee65f0c0ffee0009'' 5000 (ann (Some small_txt)) example_store
            = (final_handler e, example_store)
        \<and> status (final_handler e) = 500 \<and> status (app_error_handler e) = 500)"
proof -
  have b: "file_part (ann (Some big_png)) = Some big_png"
    and t: "file_part (ann (Some small_txt)) = Some small_txt"
    by (simp_all add: ann_def)
  have b': "fileSize < length (buffer big_png) \<or> \<not> startsWith (mimetype big_png) ''image/''"
    using big_png_oversize by simp
  have t': "fileSize < length (buffer small_txt) \<or> \<not> startsWith (mimetype small_txt) ''image/''"
    by (simp add: small_txt_def startsWith_def)
  from upload_rejection_status[OF b b'] upload_rejection_status[OF t t'] show ?thesis
    by blast
qed

section \<open>No write on a rejected ingest\<close>

lemma post_users_non201:
  "status (fst (post_users new_id now r file store)) \<noteq> 201 \<Longrightarrow>
     snd (post_users new_id now r file store) = store"
  by (auto simp: post_users_def status_json Let_def split: option.splits sum.splits if_splits)

lemma post_users_missing:
  "falsy (f_name r) \<or> falsy (f_mobile r) \<or> falsy (f_address r) \<or> file = None \<Longrightarrow>
     status (fst (post_users new_id now r file store)) = 400"
  by (auto simp: post_users_def status_json)

text \<open>
  C4. Whenever the ingest route answers with anything but 201, the store it returns
  is the store it was given. A file over the size limit, a file whose MIME type is not
  an image type, a missing file, and a missing or empty name, mobile or address each
  lead to such an answer.
\<close>

theorem rejected_ingest_store_unchanged:
  "(status (fst (route_post_users new_id now r store)) \<noteq> 201 \<longrightarrow>
      snd (route_post_users new_id now r store) = store)
   \<and> ((case file_part r of
          None \<Rightarrow> True
        | Some f \<Rightarrow> fileSize < length (buffer f) \<or> \<not> startsWith (mimetype f) ''image/'')
       \<or> falsy (f_name r) \<or> falsy (f_mobile r) \<or> falsy (f_address r) \<longrightarrow>
       status (fst (route_post_users new_id now r store)) \<noteq> 201
     \<and> snd (route_post_users new_id now r store) = store)"
proof -
  have gen: "status (fst (route_post_users new_id now r store)) \<noteq> 201 \<longrightarrow>
            snd (route_post_users new_id now r store) = store"
    using post_users_non201
    by (auto simp: route_post_users_def split: sum.splits)
  have rej: "(case file_part r of
               None \<Rightarrow> True
             | Some f \<Rightarrow> fileSize < length (buffer f) \<or> \<not> startsWith (mimetype f) ''image/'')
            \<or> falsy (f_name r) \<or> falsy (f_mobile r) \<or> falsy (f_address r) \<longrightarrow>
            status (fst (route_post_users new_id now r store)) \<noteq> 201"
  proof (cases "upload_single ''image'' r")
    case (Inl e)
    then show ?thesis
      using upload_error_no_status[OF Inl] final_handler_plain
      by (simp add: route_post_users_def)
  next
    case (Inr fl)
    show ?thesis
    proof
      assume a: "(case file_part r of
               None \<Rightarrow> True
             | Some f \<Rightarrow> fileSize < length (buffer f) \<or> \<not> startsWith (mimetype f) ''image/'')
            \<or> falsy (f_name r) \<or> falsy (f_mobile r) \<or> falsy (f_address r)"
      have "file_part r = None \<or> falsy (f_name r) \<or> falsy (f_mobile r) \<or> falsy (f_address r)"
      proof (cases "file_part r")
        case None
        then show ?thesis by simp
      next
        case (Some f)
        from a Some have "fileSize < length (buffer f) \<or> \<not> startsWith (mimetype f) ''image/''
            \<or> falsy (f_name r) \<or> falsy (f_mobile r) \<or> falsy (f_address r)" by simp
        with Inr upload_single_oversize[OF Some] upload_single_nonimage[OF Some] show ?thesis
          by auto
      qed
      then have "falsy (f_name r) \<or> falsy (f_mobile r) \<or> falsy (f_address r) \<or> fl = None"
        using Inr upload_single_None by fastforce
      from post_users_missing[OF this]
      show "status (fst (route_post_users new_id now r store)) \<noteq> 201"
        using Inr by (simp add: route_post_users_def)
    qed
  qed
  from gen rej show ?thesis by blast
qed

theorem rejected_ingest_store_unchanged_witness:
  "status (fst (route_post_users ''65f0c0ffee65f0c0ffee0009'' 5000 (ann (Some big_png))
                  example_store)) \<noteq> 201
   \<and> snd (route_post_users ''65f0c0ffee65f0c0ffee0009'' 5000 (ann (Some big_png)) example_store)
       = example_store
   \<and> status (fst (route_post_users ''65f0c0ffee65f0c0ffee0009'' 5000 (ann None) example_store))
       \<noteq> 201
   \<and> snd (route_post_users ''65f0c0ffee65f0c0ffee0009'' 5000 (ann None) example_store)
       = example_store
   \<and> snd (route_post_users ''65f0c0ffee65f0c0ffee0009'' 5000
            ((ann (Some small_png))\<lparr>f_mobile := Some []\<rparr>) example_store)
       = example_store"
proof -
  have b: "case file_part (ann (Some big_png)) of
             None \<Rightarrow> True
           | Some f \<Rightarrow> fileSize < length (buffer f) \<or> \<not> startsWith (mimetype f) ''image/''"
    using big_png_oversize by (simp add: ann_def)
  have n: "case file_part (ann None) of
             None \<Rightarrow> True
           | Some f \<Rightarrow> fileSize < length (buffer f) \<or> \<not> startsWith (mimetype f) ''image/''"
    by (simp add: ann_def)
  have m: "falsy (f_mobile ((ann (Some small_png))\<lparr>f_mobile := Some []\<rparr>))"
    by (simp add: falsy_def)
  from rejected_ingest_store_unchanged[where r = "ann (Some big_png)"]
       rejected_ingest_store_unchanged[where r = "ann None"]
       rejected_ingest_store_unchanged[where r = "(ann (Some small_png))\<lparr>f_mobile := Some []\<rparr>"]
       b n m
  show ?thesis by blast
qed

section \<open>Login failures\<close>

text \<open>
  C5. Take two login requests, each with a well-formed email and a non-empty
  password: one whose email is not registered, one whose email is registered but whose
  password does not match. Both are answered with status 401 and the message
  "Invalid credentials", and the two responses are equal.
\<close>

theorem login_failure_uniform:
  assumes "valid_email isEmail (b_email b1)" "field (b_password b1) \<noteq> []"
    and "valid_email isEmail (b_email b2)" "field (b_password b2) \<noteq> []"
    and "findOne M store1 (field (b_email b1)) = None"
    and "findOne M store2 (field (b_email b2)) = Some u"
    and "\<not> matchPassword M u (field (b_password b2))"
  shows "login L M isEmail E now b1 store1 = (401, message_json ''Invalid credentials'')
       \<and> login L M isEmail E now b2 store2 = (401, message_json ''Invalid credentials'')
       \<and> login L M isEmail E now b1 store1 = login L M isEmail E now b2 store2"
  using assms by (simp add: login_def login_errors_def)

theorem login_failure_uniform_witness:
  "login example_jwt example_model example_isEmail example_env 1000
     (example_signup\<lparr>b_email := Some ''bob@example.com''\<rparr>) [example_account]
     = (401, message_json ''Invalid credentials'')
   \<and> login example_jwt example_model example_isEmail example_env 1000
       (example_signup\<lparr>b_password := Some ''wrong''\<rparr>) [example_account]
     = (401, message_json ''Invalid credentials'')"
proof -
  let ?b1 = "example_signup\<lparr>b_email := Some ''bob@example.com''\<rparr>"
  let ?b2 = "example_signup\<lparr>b_password := Some ''wrong''\<rparr>"
  have v1: "valid_email example_isEmail (b_email ?b1)" and p1: "field (b_password ?b1) \<noteq> []"
    and v2: "valid_email example_isEmail (b_email ?b2)" and p2: "field (b_password ?b2) \<noteq> []"
    by (simp_all add: valid_email_def example_isEmail_def example_signup_def field_def
          or_default_def)
  have f1: "findOne example_model [example_account] (field (b_email ?b1)) = None"
    by (simp add: findOne_def example_model_def example_account_def str_at_def field_def
          or_default_def)
  have f2: "findOne example_model [example_account] (field (b_email ?b2)) = Some example_account"
    by (simp add: findOne_def example_model_def example_account_def str_at_def field_def
          or_default_def example_signup_def)
  have w: "\<not> matchPassword example_model example_account (field (b_password ?b2))"
    by (simp add: example_model_def example_account_def str_at_def field_def or_default_def)
  from login_failure_uniform[OF v1 p1 v2 p2 f1 f2 w] show ?thesis by blast
qed

section \<open>The signup view\<close>

lemma userSafe_no_password: "''password'' \<notin> fst ` set (userSafe ob)"
  by (auto simp: userSafe_def)

text \<open>
  A valid signup does succeed: with a non-blank name, a well-formed email that is not
  registered yet and a password of six characters or more, once \<open>User.create\<close> and
  \<open>signToken\<close> return, the answer is 201.
\<close>

lemma signup_succeeds:
  assumes "trim (field (b_name b)) \<noteq> []" "valid_email isEmail (b_email b)"
    and "6 \<le> char_count (field (b_password b))"
    and "findOne M store (field (b_email b)) = None"
    and "create M store (trim (field (b_name b))) (field (b_email b)) (field (b_password b))
           = Some u"
    and "signToken L E now (u_id M u, u_email M u) = Inr t"
  shows "signup L M isEmail E now b store
           = ((201, token_json ''User created'' t (userSafe (toObject M u))), store @ [u])"
  using assms by (simp add: signup_def signup_errors_def Let_def)

text \<open>
  C6. Whenever signup answers 201, the account \<open>User.create\<close> built was appended to
  the collection, and the \<open>user\<close> entry of the response is that account's object
  without its \<open>password\<close> entry: no key of the view is \<open>password\<close>.
\<close>

theorem signup_view_without_password:
  assumes "signup L M isEmail E now b store = ((201, j), store')"
  shows "\<exists>u t. create M store (trim (field (b_name b))) (field (b_email b))
                  (field (b_password b)) = Some u
            \<and> store' = store @ [u]
            \<and> j = token_json ''User created'' t (userSafe (toObject M u))
            \<and> user j = Some (userSafe (toObject M u))
            \<and> ''password'' \<notin> fst ` set (userSafe (toObject M u))"
  using assms userSafe_no_password
  by (auto simp: signup_def Let_def token_json_def split: if_splits option.splits sum.splits)

lemma example_signup_created:
  "signup example_jwt example_model example_isEmail example_env 1000 example_signup []
     = ((201, token_json ''User created'' example_token
                [(''_id'', S ''65f0c0ffee65f0c0ffee0001''), (''name'', S ''Ann''),
                 (''email'', S ''ann@example.com''), (''__v'', N 0)]),
        [example_account])"
proof -
  have e: "signup_errors example_isEmail example_signup = []"
    by (simp add: signup_errors_def example_signup_def valid_email_def example_isEmail_def
          field_def or_default_def trim_def white_space_def char_count_def is_continuation_def)
  have c: "create example_model [] (trim (field (b_name example_signup)))
             (field (b_email example_signup)) (field (b_password example_signup))
           = Some example_account"
    by (simp add: example_model_def example_signup_def example_account_def field_def
          or_default_def trim_def white_space_def)
  have i: "u_id example_model example_account = ''65f0c0ffee65f0c0ffee0001''"
    "u_email example_model example_account = ''ann@example.com''"
    "toObject example_model example_account = example_account"
    by (simp_all add: example_model_def example_account_def str_at_def)
  have t: "signToken example_jwt example_env 1000
             (''65f0c0ffee65f0c0ffee0001'', ''ann@example.com'') = Inr example_token"
    by (rule example_issue)
  have s: "userSafe example_account
             = [(''_id'', S ''65f0c0ffee65f0c0ffee0001''), (''name'', S ''Ann''),
                (''email'', S ''ann@example.com''), (''__v'', N 0)]"
    by (simp add: userSafe_def example_account_def)
  show ?thesis
    unfolding signup_def Let_def e c by (simp add: findOne_def i t s)
qed

theorem signup_view_without_password_witness:
  "\<exists>u t. create example_model [] (trim (field (b_name example_signup)))
            (field (b_email example_signup)) (field (b_password example_signup)) = Some u
        \<and> [example_account] = [] @ [u]
        \<and> token_json ''User created'' example_token
            [(''_id'', S ''65f0c0ffee65f0c0ffee0001''), (''name'', S ''Ann''),
             (''email'', S ''ann@example.com''), (''__v'', N 0)]
          = token_json ''User created'' t (userSafe (toObject example_model u))
        \<and> user (token_json ''User created'' example_token
            [(''_id'', S ''65f0c0ffee65f0c0ffee0001''), (''name'', S ''Ann''),
             (''email'', S ''ann@example.com''), (''__v'', N 0)])
          = Some (userSafe (toObject example_model u))
        \<and> ''password'' \<notin> fst ` set (userSafe (toObject example_model u))"
  by (rule signup_view_without_password[OF example_signup_created])

section \<open>Ingest, then serve\<close>

lemma find_append_fresh:
  "\<forall>x \<in> set xs. \<not> P x \<Longrightarrow> P y \<Longrightarrow> find P (xs @ [y]) = Some y"
  by (induction xs) auto

lemma image_not_textual:
  assumes "startsWith s ''image/''"
  shows "\<not> startsWith s ''text/''" "\<not> startsWith s ''application/javascript''"
        "\<not> startsWith s ''application/json''"
proof -
  from assms obtain r where "s = ''image/'' @ r"
    unfolding startsWith_def by (metis append_take_drop_id)
  then show "\<not> startsWith s ''text/''" "\<not> startsWith s ''application/javascript''"
        "\<not> startsWith s ''application/json''"
    by (simp_all add: startsWith_def)
qed

lemma set_content_type_image:
  "startsWith s ''image/'' \<Longrightarrow> set_content_type hc (Some s) = s"
  using image_not_textual[of s] by (simp add: set_content_type_def)

lemma save_result:
  "save now d store = Inr (saved, store') \<Longrightarrow>
     saved = d\<lparr>createdAt := now, updatedAt := now\<rparr> \<and> store' = store @ [saved]
     \<and> doc_id d \<notin> doc_id ` set store"
  by (auto simp: save_def Let_def split: if_splits)

lemma post_users_created:
  assumes "post_users new_id now r file store = (resp, store')" "status resp = 201"
  shows "\<exists>f saved. file = Some f
          \<and> saved = (new_User new_id (field (f_name r)) (field (f_mobile r)) (field (f_address r))
                       \<lparr>data = Some (buffer f), contentType = Some (mimetype f)\<rparr>)
                     \<lparr>createdAt := now, updatedAt := now\<rparr>
          \<and> store' = store @ [saved] \<and> new_id \<notin> doc_id ` set store
          \<and> resp = json 201 \<lparr>success = True, message = Some ''User created successfully'',
                             error = None,
                             data_json = Some (Created new_id (name saved) (mobile saved)
                                                 (address saved) now)\<rparr>"
proof -
  from assms have ok: "\<not> (falsy (f_name r) \<or> falsy (f_mobile r) \<or> falsy (f_address r))"
    by (auto simp: post_users_def status_json)
  with assms obtain f where f: "file = Some f"
    by (cases "file") (auto simp: post_users_def status_json)
  let ?d = "new_User new_id (field (f_name r)) (field (f_mobile r)) (field (f_address r))
              \<lparr>data = Some (buffer f), contentType = Some (mimetype f)\<rparr>"
  from assms ok f obtain saved st where sv: "save now ?d store = Inr (saved, st)"
    by (cases "save now ?d store") (auto simp: post_users_def status_json Let_def)
  from save_result[OF sv] have s: "saved = ?d\<lparr>createdAt := now, updatedAt := now\<rparr>"
    "st = store @ [saved]" "new_id \<notin> doc_id ` set store"
    by (simp_all add: new_User_def)
  from assms(1) ok f sv
  have "resp = json 201 \<lparr>success = True, message = Some ''User created successfully'',
                         error = None,
                         data_json = Some (Created (doc_id saved) (name saved) (mobile saved)
                                             (address saved) (createdAt saved))\<rparr>"
    and "store' = st"
    by (simp_all add: post_users_def Let_def)
  moreover have "doc_id saved = new_id" "createdAt saved = now"
    by (simp_all add: s(1) new_User_def)
  ultimately show ?thesis using f s by simp
qed

lemma route_created:
  assumes "route_post_users new_id now r store = (resp, store')" "status resp = 201"
  shows "\<exists>f. upload_single ''image'' r = Inr (Some f)
           \<and> post_users new_id now r (Some f) store = (resp, store')"
proof (cases "upload_single ''image'' r")
  case (Inl e)
  from upload_error_no_status[OF Inl] Inl assms show ?thesis
    by (auto simp: route_post_users_def final_handler_def)
next
  case (Inr fl)
  with assms have p: "post_users new_id now r fl store = (resp, store')"
    by (simp add: route_post_users_def)
  from post_users_created[OF p assms(2)] obtain f where "fl = Some f" by blast
  with Inr p show ?thesis by simp
qed

text \<open>
  An ingest does succeed: an image file of at most 5 MiB under the field \<open>image\<close>,
  three text fields that are not blank, and an id no stored document has, give 201.
\<close>

lemma not_falsy: "trim (field v) \<noteq> [] \<Longrightarrow> \<not> falsy v"
  by (auto simp: falsy_def field_def or_default_def trim_def split: option.splits)

lemma ingest_succeeds:
  assumes "file_part r = Some f" "fieldname f = ''image''"
    and "startsWith (mimetype f) ''image/''" "length (buffer f) \<le> fileSize"
    and "trim (field (f_name r)) \<noteq> []" "trim (field (f_mobile r)) \<noteq> []"
        "trim (field (f_address r)) \<noteq> []"
    and "new_id \<notin> doc_id ` set store"
  shows "status (fst (route_post_users new_id now r store)) = 201"
proof -
  let ?d = "new_User new_id (field (f_name r)) (field (f_mobile r)) (field (f_address r))
              \<lparr>data = Some (buffer f), contentType = Some (mimetype f)\<rparr>"
  have u: "upload_single ''image'' r = Inr (Some f)"
    using assms(1-4) by (simp add: upload_single_def fileFilter_def)
  have s: "save now ?d store
             = Inr (?d\<lparr>createdAt := now, updatedAt := now\<rparr>,
                    store @ [?d\<lparr>createdAt := now, updatedAt := now\<rparr>])"
    using assms(5-8) by (simp add: save_def new_User_def Let_def)
  show ?thesis
    unfolding route_post_users_def u
    using assms(5-7) not_falsy s by (simp add: post_users_def Let_def status_json)
qed

text \<open>
  C7. When the ingest route answers 201, the id in the response is the new
  document's id, and fetching the image by that id from the resulting store answers
  200 with exactly the uploaded bytes as the body and exactly the uploaded file's
  declared MIME type as the content type. The driver's object-id functions are
  constrained only at the generated id: it is valid and is its own canonical text.
\<close>

theorem ingest_then_serve_roundtrip:
  assumes ingest: "route_post_users new_id now r store = (resp, store')" "status resp = 201"
    and lib: "isValid G new_id" "castObjectId G new_id = Some new_id"
  shows "\<exists>f n m a. file_part r = Some f
           \<and> body resp = Json \<lparr>success = True, message = Some ''User created successfully'',
                                error = None, data_json = Some (Created new_id n m a now)\<rparr>
           \<and> get_user_image G has_charset NODE_ENV new_id store'
               = \<lparr>status = 200, content_type = mimetype f, body = Bytes (buffer f)\<rparr>"
proof -
  from route_created[OF ingest] obtain f where
    up: "upload_single ''image'' r = Inr (Some f)"
    and p: "post_users new_id now r (Some f) store = (resp, store')" by blast
  from upload_single_accepts[OF up] have f: "file_part r = Some f"
    and img: "startsWith (mimetype f) ''image/''" by simp_all
  from post_users_created[OF p ingest(2)] obtain saved where
    saved: "saved = (new_User new_id (field (f_name r)) (field (f_mobile r)) (field (f_address r))
                       \<lparr>data = Some (buffer f), contentType = Some (mimetype f)\<rparr>)
                     \<lparr>createdAt := now, updatedAt := now\<rparr>"
    and st: "store' = store @ [saved]" and fresh: "new_id \<notin> doc_id ` set store"
    and resp: "resp = json 201 \<lparr>success = True, message = Some ''User created successfully'',
                             error = None,
                             data_json = Some (Created new_id (name saved) (mobile saved)
                                                 (address saved) now)\<rparr>"
    by auto
  have sid: "doc_id saved = new_id" by (simp add: saved new_User_def)
  have "\<forall>x \<in> set store. doc_id x \<noteq> new_id"
    using fresh by auto
  then have "find (\<lambda>d. doc_id d = new_id) (store @ [saved]) = Some saved"
    using sid by (rule find_append_fresh)
  then have fb: "findById G store' new_id = Inr (Some saved)"
    using lib st by (simp add: findById_def)
  have d: "image_data saved = Some (buffer f)" "image_contentType saved = Some (mimetype f)"
    by (simp_all add: saved new_User_def image_data_def image_contentType_def)
  have "get_user_image G has_charset NODE_ENV new_id store'
               = \<lparr>status = 200, content_type = mimetype f, body = Bytes (buffer f)\<rparr>"
    using lib(1) fb d set_content_type_image[OF img] by (simp add: get_user_image_def)
  moreover have "body resp = Json \<lparr>success = True, message = Some ''User created successfully'',
                   error = None, data_json = Some (Created new_id (name saved) (mobile saved)
                                                 (address saved) now)\<rparr>"
    by (simp add: resp json_def)
  ultimately show ?thesis using f by blast
qed

lemma example_mongo_valid:
  "isValid example_mongo ''65f0c0ffee65f0c0ffee0009''"
  "castObjectId example_mongo ''65f0c0ffee65f0c0ffee0009'' = Some ''65f0c0ffee65f0c0ffee0009''"
  by (simp_all add: example_mongo_def is_hex_def)

lemma example_ingest_created:
  "status (fst (route_post_users ''65f0c0ffee65f0c0ffee0009'' 5000 (ann (Some small_png))
                  example_store)) = 201"
proof -
  have u: "upload_single ''image'' (ann (Some small_png)) = Inr (Some small_png)"
    by (simp add: upload_single_def ann_def small_png_def fileFilter_def startsWith_def
          fileSize_def)
  have s: "\<exists>saved st. save 5000 (new_User ''65f0c0ffee65f0c0ffee0009'' ''Ann'' ''1234567890''
                   ''1 Main St'' \<lparr>data = Some (buffer small_png),
                                   contentType = Some (mimetype small_png)\<rparr>) example_store
             = Inr (saved, st)"
    by (simp add: save_def new_User_def trim_def white_space_def example_store_def
          example_profile_def Let_def)
  then show ?thesis
    unfolding route_post_users_def u
    by (auto simp: post_users_def ann_def falsy_def field_def or_default_def status_json Let_def)
qed

theorem ingest_then_serve_roundtrip_witness:
  "status (fst (route_post_users ''65f0c0ffee65f0c0ffee0009'' 5000 (ann (Some small_png))
                  example_store)) = 201
   \<and> get_user_image example_mongo (\<lambda>s. False) None ''65f0c0ffee65f0c0ffee0009''
        (snd (route_post_users ''65f0c0ffee65f0c0ffee0009'' 5000 (ann (Some small_png))
                example_store))
     = \<lparr>status = 200, content_type = ''image/png'', body = Bytes [137, 80, 78, 71]\<rparr>"
proof -
  let ?R = "route_post_users ''65f0c0ffee65f0c0ffee0009'' 5000 (ann (Some small_png))
              example_store"
  have eq: "?R = (fst ?R, snd ?R)" by simp
  from ingest_then_serve_roundtrip[OF eq example_ingest_created example_mongo_valid,
         of "\<lambda>s. False" None]
  obtain f where f: "file_part (ann (Some small_png)) = Some f"
    and g: "get_user_image example_mongo (\<lambda>s. False) None ''65f0c0ffee65f0c0ffee0009'' (snd ?R)
              = \<lparr>status = 200, content_type = mimetype f, body = Bytes (buffer f)\<rparr>"
    by blast
  from f have "f = small_png" by (simp add: ann_def)
  with g example_ingest_created show ?thesis by (simp add: small_png_def)
qed

section \<open>Validation on the image route\<close>

text \<open>
  C8. On the image route an id that \<open>isValid\<close> rejects is answered 400
  "Invalid user ID format", although the lookup on that id would have thrown; so
  the check comes before the query and the answer is not 500. An id that passes the
  check and finds no document, or finds one whose image has no bytes, is answered 404.
\<close>

theorem image_fetch_validation:
  "(\<not> isValid G i \<longrightarrow>
       get_user_image G has_charset NODE_ENV i store = json 400 (failure ''Invalid user ID format'')
     \<and> status (get_user_image G has_charset NODE_ENV i store) = 400
     \<and> findById G store i = Inl CastError)
   \<and> (isValid G i \<and> findById G store i = Inr None \<longrightarrow>
       get_user_image G has_charset NODE_ENV i store = json 404 (failure ''Image not found'')
     \<and> status (get_user_image G has_charset NODE_ENV i store) = 404)
   \<and> (isValid G i \<and> findById G store i = Inr (Some u) \<and> image_data u = None \<longrightarrow>
       get_user_image G has_charset NODE_ENV i store = json 404 (failure ''Image not found'')
     \<and> status (get_user_image G has_charset NODE_ENV i store) = 404)"
  by (simp add: get_user_image_def status_json findById_def)

lemma example_lookups:
  "\<not> isValid example_mongo ''xyz''"
  "isValid example_mongo ''65f0c0ffee65f0c0ffee0007''"
  "findById example_mongo example_store ''65f0c0ffee65f0c0ffee0007'' = Inr None"
  "isValid example_mongo ''65f0c0ffee65f0c0ffee0002''"
  "findById example_mongo example_store ''65f0c0ffee65f0c0ffee0002''
     = Inr (Some (example_profile ''65f0c0ffee65f0c0ffee0002'' ''Bob'' None 3000))"
  "image_data (example_profile ''65f0c0ffee65f0c0ffee0002'' ''Bob'' None 3000) = None"
  by (simp_all add: example_mongo_def is_hex_def findById_def example_store_def
        example_profile_def image_data_def)

theorem image_fetch_validation_witness:
  "status (get_user_image example_mongo (\<lambda>s. False) None ''xyz'' example_store) = 400
   \<and> findById example_mongo example_store ''xyz'' = Inl CastError
   \<and> status (get_user_image example_mongo (\<lambda>s. False) None ''65f0c0ffee65f0c0ffee0007''
               example_store) = 404
   \<and> status (get_user_image example_mongo (\<lambda>s. False) None ''65f0c0ffee65f0c0ffee0002''
               example_store) = 404"
  using image_fetch_validation[where G = example_mongo and store = example_store
          and has_charset = "\<lambda>s. False" and NODE_ENV = None and i = "''xyz''"]
        image_fetch_validation[where G = example_mongo and store = example_store
          and has_charset = "\<lambda>s. False" and NODE_ENV = None
          and i = "''65f0c0ffee65f0c0ffee0007''"]
        image_fetch_validation[where G = example_mongo and store = example_store
          and has_charset = "\<lambda>s. False" and NODE_ENV = None
          and i = "''65f0c0ffee65f0c0ffee0002''"
          and u = "example_profile ''65f0c0ffee65f0c0ffee0002'' ''Bob'' None 3000"]
        example_lookups
  by blast

section \<open>The listing\<close>

lemma sorted_wrt_rev_ge:
  "sorted (map f xs) \<Longrightarrow> sorted_wrt (\<lambda>a b. f b \<le> f a) (rev xs)"
  by (induction xs) (auto simp: sorted_wrt_append)

lemma fields_without_image:
  "map (\<lambda>d. (doc_id d, name d, mobile d, address d, createdAt d, updatedAt d))
     (map (\<lambda>d. d\<lparr>image' := None\<rparr>) xs)
   = map (\<lambda>d. (doc_id d, name d, mobile d, address d, createdAt d, updatedAt d)) xs"
  by (induction xs) simp_all

text \<open>
  C9. For every store the listing answers 200 with a JSON list of documents. The list
  holds the documents of the store, each once and each changed in nothing but its
  image: taken as records it is a rearrangement of the store's documents with the
  image path removed, and taken field by field its ids, names, mobile numbers,
  addresses and timestamps are those of the store. No listed document has an image,
  and creation times never increase along the list.
\<close>

theorem listing_sorted_metadata_only:
  "\<exists>docs. get_users store
             = \<lparr>status = 200, content_type = ''application/json; charset=utf-8'',
                body = Json \<lparr>success = True, message = None, error = None,
                             data_json = Some (Profiles docs)\<rparr>\<rparr>
         \<and> mset docs = mset (map (\<lambda>d. d\<lparr>image' := None\<rparr>) store)
         \<and> mset (map (\<lambda>d. (doc_id d, name d, mobile d, address d, createdAt d, updatedAt d)) docs)
             = mset (map (\<lambda>d. (doc_id d, name d, mobile d, address d, createdAt d, updatedAt d))
                      store)
         \<and> length docs = length store
         \<and> sorted_wrt (\<lambda>a b. createdAt b \<le> createdAt a) docs
         \<and> (\<forall>d \<in> set docs. image' d = None)"
proof -
  let ?key = "\<lambda>d. (doc_id d, name d, mobile d, address d, createdAt d, updatedAt d)"
  have "sorted (map createdAt (sort_key createdAt (map exclude_image store)))"
    by (rule sorted_sort_key)
  then have s: "sorted_wrt (\<lambda>a b. createdAt b \<le> createdAt a) (find_sorted store)"
    unfolding find_sorted_def by (rule sorted_wrt_rev_ge)
  have e: "exclude_image = (\<lambda>d. d\<lparr>image' := None\<rparr>)"
    by (rule ext) (simp add: exclude_image_def)
  have m: "mset (find_sorted store) = mset (map (\<lambda>d. d\<lparr>image' := None\<rparr>) store)"
    by (simp add: find_sorted_def e)
  have a: "mset (map ?key (find_sorted store))
             = mset (map ?key (map (\<lambda>d. d\<lparr>image' := None\<rparr>) store))"
    using m by (metis mset_map)
  have k: "mset (map ?key (find_sorted store)) = mset (map ?key store)"
    using a by (simp only: fields_without_image)
  have l: "length (find_sorted store) = length store"
    by (simp add: find_sorted_def)
  have "set (find_sorted store) = (\<lambda>d. d\<lparr>image' := None\<rparr>) ` set store"
    by (simp add: find_sorted_def e)
  then have i: "\<forall>d \<in> set (find_sorted store). image' d = None"
    by auto
  have r: "get_users store
             = \<lparr>status = 200, content_type = ''application/json; charset=utf-8'',
                body = Json \<lparr>success = True, message = None, error = None,
                             data_json = Some (Profiles (find_sorted store))\<rparr>\<rparr>"
    by (simp add: get_users_def json_def)
  from r m k l s i show ?thesis by blast
qed

lemma example_listing:
  "get_users example_store
     = \<lparr>status = 200, content_type = ''application/json; charset=utf-8'',
        body = Json \<lparr>success = True, message = None, error = None,
                 data_json = Some (Profiles
                   [\<lparr>doc_id = ''65f0c0ffee65f0c0ffee0002'', name = ''Bob'',
                     mobile = ''1234567890'', address = ''1 Main St'', image' = None,
                     createdAt = 3000, updatedAt = 3000\<rparr>,
                    \<lparr>doc_id = ''65f0c0ffee65f0c0ffee0003'', name = ''Cy'',
                     mobile = ''1234567890'', address = ''1 Main St'', image' = None,
                     createdAt = 2000, updatedAt = 2000\<rparr>,
                    \<lparr>doc_id = ''65f0c0ffee65f0c0ffee0001'', name = ''Ann'',
                     mobile = ''1234567890'', address = ''1 Main St'', image' = None,
                     createdAt = 1000, updatedAt = 1000\<rparr>])\<rparr>\<rparr>"
  by (simp add: get_users_def json_def find_sorted_def example_store_def example_profile_def
        exclude_image_def)

theorem listing_sorted_metadata_only_witness:
  "\<exists>docs. docs = [\<lparr>doc_id = ''65f0c0ffee65f0c0ffee0002'', name = ''Bob'',
                     mobile = ''1234567890'', address = ''1 Main St'', image' = None,
                     createdAt = 3000, updatedAt = 3000\<rparr>,
                    \<lparr>doc_id = ''65f0c0ffee65f0c0ffee0003'', name = ''Cy'',
                     mobile = ''1234567890'', address = ''1 Main St'', image' = None,
                     createdAt = 2000, updatedAt = 2000\<rparr>,
                    \<lparr>doc_id = ''65f0c0ffee65f0c0ffee0001'', name = ''Ann'',
                     mobile = ''1234567890'', address = ''1 Main St'', image' = None,
                     createdAt = 1000, updatedAt = 1000\<rparr>]
         \<and> get_users example_store
             = \<lparr>status = 200, content_type = ''application/json; charset=utf-8'',
                body = Json \<lparr>success = True, message = None, error = None,
                             data_json = Some (Profiles docs)\<rparr>\<rparr>
         \<and> mset docs = mset (map (\<lambda>d. d\<lparr>image' := None\<rparr>) example_store)
         \<and> mset (map (\<lambda>d. (doc_id d, name d, mobile d, address d, createdAt d, updatedAt d)) docs)
             = mset (map (\<lambda>d. (doc_id d, name d, mobile d, address d, createdAt d, updatedAt d))
                      example_store)
         \<and> length docs = length example_store
         \<and> sorted_wrt (\<lambda>a b. createdAt b \<le> createdAt a) docs"
proof -
  from listing_sorted_metadata_only[of example_store] obtain docs where
    g: "get_users example_store
             = \<lparr>status = 200, content_type = ''application/json; charset=utf-8'',
                body = Json \<lparr>success = True, message = None, error = None,
                             data_json = Some (Profiles docs)\<rparr>\<rparr>"
    and m: "mset docs = mset (map (\<lambda>d. d\<lparr>image' := None\<rparr>) example_store)"
    and k: "mset (map (\<lambda>d. (doc_id d, name d, mobile d, address d, createdAt d, updatedAt d)) docs)
             = mset (map (\<lambda>d. (doc_id d, name d, mobile d, address d, createdAt d, updatedAt d))
                      example_store)"
    and l: "length docs = length example_store"
    and s: "sorted_wrt (\<lambda>a b. createdAt b \<le> createdAt a) docs"
    by blast
  from g example_listing have
    "docs = [\<lparr>doc_id = ''65f0c0ffee65f0c0ffee0002'', name = ''Bob'',
                     mobile = ''1234567890'', address = ''1 Main St'', image' = None,
                     createdAt = 3000, updatedAt = 3000\<rparr>,
                    \<lparr>doc_id = ''65f0c0ffee65f0c0ffee0003'', name = ''Cy'',
                     mobile = ''1234567890'', address = ''1 Main St'', image' = None,
                     createdAt = 2000, updatedAt = 2000\<rparr>,
                    \<lparr>doc_id = ''65f0c0ffee65f0c0ffee0001'', name = ''Ann'',
                     mobile = ''1234567890'', address = ''1 Main St'', image' = None,
                     createdAt = 1000, updatedAt = 1000\<rparr>]"
    by simp
  with g m k l s show ?thesis by blast
qed

section \<open>The metadata route on a malformed id\<close>

text \<open>
  C10. The single-profile route queries without checking the id. For an id that
  \<open>isValid\<close> rejects the lookup throws, and the route answers 500, where the image
  route answers 400 for the same id.
\<close>

theorem metadata_fetch_malformed_id:
  assumes "\<not> isValid G i"
  shows "findById G store i = Inl CastError
       \<and> get_user G i store = json 500 (server_error (Thrown CastError))
       \<and> status (get_user G i store) = 500
       \<and> status (get_user_image G has_charset NODE_ENV i store) = 400"
  using assms by (simp add: findById_def get_user_def get_user_image_def status_json)

theorem metadata_fetch_malformed_id_witness:
  "findById example_mongo example_store ''xyz'' = Inl CastError
   \<and> get_user example_mongo ''xyz'' example_store = json 500 (server_error (Thrown CastError))
   \<and> status (get_user example_mongo ''xyz'' example_store) = 500
   \<and> status (get_user_image example_mongo (\<lambda>s. False) None ''xyz'' example_store) = 400"
proof -
  have "\<not> isValid example_mongo ''xyz''"
    by (simp add: example_mongo_def)
  from metadata_fetch_malformed_id[OF this] show ?thesis .
qed

end
